theory Spec2Isabelle
  imports Complex_Main
begin

section \<open>Data model of kivy/uix/splitter.py\<close>

text \<open>
  Widgets are Python objects: they are compared by identity (\<open>is\<close>, \<open>is not\<close>) and
  mutated through references. An object is named by its identity \<open>wid\<close>; the objects
  a Splitter reaches (its strip, its managed panel, its parent) live in a store.
  Numeric properties are Python numbers; they are modelled as reals.
\<close>

type_synonym wid = nat

text \<open>\<open>sizable_from\<close> is an OptionProperty over the four strings below; the
  handlers look only at the first letter, which tells the four apart.\<close>

datatype edge = Left | Right | Top | Bottom

datatype orientation = Horizontal | Vertical

text \<open>The three bound methods of the Splitter that get registered on the strip.\<close>

datatype handler = Strip_down | Strip_move | Strip_up

text \<open>\<open>_strp.setter('width')\<close> and \<open>_strp.setter('height')\<close>.\<close>

datatype dim = Width | Height

text \<open>What a method hands back: \<open>None\<close> (also by falling off the end), \<open>False\<close>,
  or an \<open>Exception\<close> object that is returned, not raised.\<close>

datatype pyval = PyNone | PyFalse | PyException string

text \<open>What a method can raise.\<close>

datatype py_error = AttributeError | ZeroDivisionError

record widget =
  size_hint_x :: "real option"
  size_hint_y :: "real option"
  width :: real
  height :: real
  xpos :: real
  ypos :: real
  parent :: "wid option"
  on_touch_down :: "handler list"
  on_touch_move :: "handler list"
  on_touch_up :: "handler list"

text \<open>The Splitter is a widget (a BoxLayout) with the properties the class declares.
  \<open>container\<close> and \<open>strip\<close> are the attributes \<open>_container\<close> and \<open>_strip\<close>.
  \<open>strip_cls\<close> is given by the state a fresh instance of the class starts in.
  The cosmetic \<open>color\<close> property is read by no method and is left out.\<close>

record splitter = widget +
  ident :: wid
  sizable_from :: edge
  strip_cls :: widget
  strip_size :: real
  min_size :: real
  max_size :: real
  container :: "wid option"
  strip :: "wid option"
  children :: "wid list"
  orientation :: orientation
  strip_size_observers :: "(wid \<times> dim) list"

text \<open>The Splitter (\<open>self\<close>) together with the store of the other objects and the
  next unused identity.\<close>

record world = splitter +
  heap :: "wid \<Rightarrow> widget"
  next_id :: wid

record touch =
  pos :: "real \<times> real"
  dx :: real
  dy :: real
  grab_current :: "wid option"

section \<open>Toolkit operations the Splitter calls\<close>

text \<open>Python truth value of a numeric property that may be \<open>None\<close>
  (\<open>not self.size_hint_y\<close>): \<open>None\<close> and \<open>0\<close> are false.\<close>

definition truth :: "real option \<Rightarrow> bool" where
  "truth v = (case v of None \<Rightarrow> False | Some r \<Rightarrow> r \<noteq> 0)"

text \<open>Python truth value of an object reference (\<open>if self._container\<close>,
  \<open>not widget\<close>, \<open>if _strp\<close>): only \<open>None\<close> is false.\<close>

definition is_obj :: "wid option \<Rightarrow> bool" where
  "is_obj v = (case v of None \<Rightarrow> False | Some _ \<Rightarrow> True)"

text \<open>Modelled from the spec: the hit test \<open>collide_point\<close> of the widget base class
  is not in src. The spec calls it \<open>pointWithinBounds\<close>: the pointer location lies
  within the widget's bounds (its position and size, edges included).\<close>

definition collide_point :: "'a widget_scheme \<Rightarrow> real \<times> real \<Rightarrow> bool" where
  "collide_point w p =
     (xpos w \<le> fst p \<and> fst p \<le> xpos w + width w \<and>
      ypos w \<le> snd p \<and> snd p \<le> ypos w + height w)"

text \<open>Modelled from the spec: \<open>touch.grab\<close> and \<open>touch.ungrab\<close> of the touch
  dispatch system are not in src. The spec: gesture capture with an identity-comparable
  owner and explicit release; ownership is exclusive (one widget holds a gesture's
  capture at a time). \<open>grab_current\<close> is that owner as the handlers read it.\<close>

definition grab :: "touch \<Rightarrow> wid \<Rightarrow> touch" where
  "grab t w = t\<lparr>grab_current := Some w\<rparr>"

definition ungrab :: "touch \<Rightarrow> wid \<Rightarrow> touch" where
  "ungrab t w = (if grab_current t = Some w then t\<lparr>grab_current := None\<rparr> else t)"

text \<open>Modelled from the spec: \<open>add_widget\<close> and \<open>remove_widget\<close> of the container
  base class (\<open>super(Splitter, self)\<close>) are not in src. The spec: an ordered child list
  with insert-at-index, and native removal. An index past the end appends, as Python's
  \<open>list.insert\<close> does; removing a widget that is not a child changes nothing.\<close>

definition sup_add_widget :: "world \<Rightarrow> wid \<Rightarrow> nat \<Rightarrow> world" where
  "sup_add_widget self w i =
     self\<lparr>children := take i (children self) @ w # drop i (children self)\<rparr>"

definition sup_remove_widget :: "world \<Rightarrow> wid option \<Rightarrow> world" where
  "sup_remove_widget self w =
     (case w of None \<Rightarrow> self
      | Some k \<Rightarrow> self\<lparr>children := remove1 k (children self)\<rparr>)"

text \<open>Modelled from the spec: \<open>bind\<close> and \<open>unbind\<close> of the property system are not
  in src. The spec: subscribe to a property's changes or to an event, with unsubscribe
  support; the previous registration (if any) is removed first, then one is added.\<close>

definition unbind :: "'a \<Rightarrow> 'a list \<Rightarrow> 'a list" where
  "unbind h hs = remove1 h hs"

definition bind :: "'a \<Rightarrow> 'a list \<Rightarrow> 'a list" where
  "bind h hs = hs @ [h]"

text \<open>Modelled from the spec: the layout pass that realises a size hint as a pixel size
  is not in src. The spec: with stretch sizing a widget's size along an axis is a
  fraction of its parent's size along that axis, as opposed to a fixed pixel size.
  Without a stretch hint, or without a parent, the size is the fixed one.\<close>

definition realized_width :: "world \<Rightarrow> real" where
  "realized_width self =
     (case size_hint_x self of
        None \<Rightarrow> width self
      | Some f \<Rightarrow>
          if f = 0 then width self
          else (case parent self of
                  None \<Rightarrow> width self
                | Some p \<Rightarrow> f * width (heap self p)))"

definition realized_height :: "world \<Rightarrow> real" where
  "realized_height self =
     (case size_hint_y self of
        None \<Rightarrow> height self
      | Some f \<Rightarrow>
          if f = 0 then height self
          else (case parent self of
                  None \<Rightarrow> height self
                | Some p \<Rightarrow> f * height (heap self p)))"

section \<open>The Splitter's methods\<close>

subsection \<open>strip_move\<close>

text \<open>
  \<open>strip_move(self, instance, touch)\<close>. It returns \<open>False\<close> when the capture check
  fails and \<open>None\<close> otherwise. With a stretch size hint it reads \<open>self.parent.height\<close>
  (or \<open>width\<close>): with no parent that raises AttributeError, and dividing by a zero
  extent raises ZeroDivisionError. Assigning the size hint is an attribute assignment:
  it does not change \<open>self.width\<close> or \<open>self.height\<close>, which the clamp reads next (the
  parent's layout pass, which turns a hint into a size, is not part of the handler).
\<close>

definition strip_move :: "world \<Rightarrow> wid \<Rightarrow> touch \<Rightarrow> py_error + pyval \<times> world" where
  "strip_move self inst touch =
    (if grab_current touch \<noteq> strip self then Inr (PyFalse, self)
     else
       let max_sz = max_size self;
           min_sz = min_size self;
           sz_frm = sizable_from self
       in
       if sz_frm = Top \<or> sz_frm = Bottom then
         (let diff_y = dy touch;
              sign = (if sz_frm = Bottom then - 1 else 1);
              upd =
                (if \<not> truth (size_hint_y self) then
                   (if height self > 0
                    then Inr (self\<lparr>height := height self + sign * diff_y\<rparr>)
                    else Inr (self\<lparr>height := 1\<rparr>))
                 else
                   (case parent self of
                      None \<Rightarrow> Inl AttributeError
                    | Some p \<Rightarrow>
                        if height (heap self p) = 0 then Inl ZeroDivisionError
                        else
                          Inr (self\<lparr>size_hint_y :=
                                 map_option (\<lambda>h. h + sign * (diff_y / height (heap self p)))
                                   (size_hint_y self)\<rparr>)))
          in case upd of
               Inl e \<Rightarrow> Inl e
             | Inr self1 \<Rightarrow>
                 Inr (PyNone,
                      if height self1 > max_sz then self1\<lparr>height := max_sz\<rparr>
                      else if height self1 < min_sz then self1\<lparr>height := min_sz\<rparr>
                      else self1))
       else
         (let diff_x = dx touch;
              sign = (if sz_frm = Left then - 1 else 1);
              upd =
                (if \<not> truth (size_hint_x self) then
                   (if width self > 0
                    then Inr (self\<lparr>width := width self + sign * diff_x\<rparr>)
                    else Inr (self\<lparr>width := 1\<rparr>))
                 else
                   (case parent self of
                      None \<Rightarrow> Inl AttributeError
                    | Some p \<Rightarrow>
                        if width (heap self p) = 0 then Inl ZeroDivisionError
                        else
                          Inr (self\<lparr>size_hint_x :=
                                 map_option (\<lambda>h. h + sign * (diff_x / width (heap self p)))
                                   (size_hint_x self)\<rparr>)))
          in case upd of
               Inl e \<Rightarrow> Inl e
             | Inr self1 \<Rightarrow>
                 Inr (PyNone,
                      if width self1 > max_sz then self1\<lparr>width := max_sz\<rparr>
                      else if width self1 < min_sz then self1\<lparr>width := min_sz\<rparr>
                      else self1)))"

subsection \<open>A gesture's move events\<close>

text \<open>Modelled from the spec: the dispatch loop that delivers a gesture's move events
  is not in src. The spec: one event is processed to completion before the next is
  handled. An exception ends the run.\<close>

fun strip_moves :: "world \<Rightarrow> wid \<Rightarrow> touch list \<Rightarrow> py_error + world" where
  "strip_moves self inst [] = Inr self"
| "strip_moves self inst (t # ts) =
     (case strip_move self inst t of
        Inl e \<Rightarrow> Inl e
      | Inr (r, self1) \<Rightarrow> strip_moves self1 inst ts)"

subsection \<open>strip_up and strip_down\<close>

text \<open>
  \<open>strip_up(self, instance, touch)\<close>: returns \<open>False\<close> when the touch position is
  outside the Splitter, otherwise grabs the touch for the Splitter and falls off the end
  (\<open>None\<close>). \<open>strip_down(self, instance, touch)\<close>: returns \<open>None\<close> when the capture
  owner is not the Splitter, otherwise ungrabs. Neither assigns any attribute of the
  Splitter; they hand back the Splitter as it was, and the touch.
\<close>

definition strip_up :: "world \<Rightarrow> wid \<Rightarrow> touch \<Rightarrow> pyval \<times> world \<times> touch" where
  "strip_up self inst touch =
     (if \<not> collide_point self (pos touch) then (PyFalse, self, touch)
      else (PyNone, self, grab touch (ident self)))"

definition strip_down :: "world \<Rightarrow> wid \<Rightarrow> touch \<Rightarrow> pyval \<times> world \<times> touch" where
  "strip_down self inst touch =
     (if grab_current touch \<noteq> Some (ident self) then (PyNone, self, touch)
      else (PyNone, self, ungrab touch (ident self)))"

subsection \<open>on_sizable_from\<close>

text \<open>
  \<open>on_sizable_from(self, instance, sizable_from)\<close> reads \<open>self.sizable_from\<close>, not its
  arguments. Without a managed panel it returns at once. An existing strip is removed
  from the child list and kept; only when there is none is \<open>strip_cls\<close> instantiated.
  The strip is then sized for the edge, the \<open>strip_size\<close> observer for that dimension
  is re-registered, the strip is inserted at index 0 (right, bottom) or 1 (left, top),
  and the three touch handlers are re-registered on it.
\<close>

definition on_sizable_from :: "world \<Rightarrow> world" where
  "on_sizable_from self =
    (if \<not> is_obj (container self) then self
     else
       let (strp, self1) =
             (case strip self of
                Some k \<Rightarrow> (k, sup_remove_widget self (strip self))
              | None \<Rightarrow>
                  (next_id self,
                   self\<lparr>strip := Some (next_id self),
                        heap := (heap self)(next_id self := strip_cls self),
                        next_id := Suc (next_id self)\<rparr>));
           sz_frm = sizable_from self1;
           self2 =
             (if sz_frm = Left \<or> sz_frm = Right then
                self1\<lparr>heap := (heap self1)
                         (strp := (heap self1 strp)
                            \<lparr>size_hint_x := None, size_hint_y := Some 1,
                             width := strip_size self1\<rparr>),
                      strip_size_observers :=
                        bind (strp, Width)
                          (unbind (strp, Width) (strip_size_observers self1))\<rparr>
              else
                self1\<lparr>heap := (heap self1)
                         (strp := (heap self1 strp)
                            \<lparr>size_hint_x := Some 1, size_hint_y := None,
                             height := strip_size self1\<rparr>),
                      orientation := Vertical,
                      strip_size_observers :=
                        bind (strp, Height)
                          (unbind (strp, Height) (strip_size_observers self1))\<rparr>);
           i = (if sz_frm = Right \<or> sz_frm = Bottom then 0 else 1);
           self3 = sup_add_widget self2 strp i
       in self3\<lparr>heap := (heap self3)
                  (strp := (heap self3 strp)
                     \<lparr>on_touch_down := bind Strip_down (unbind Strip_down (on_touch_down (heap self3 strp))),
                      on_touch_move := bind Strip_move (unbind Strip_move (on_touch_move (heap self3 strp))),
                      on_touch_up := bind Strip_up (unbind Strip_up (on_touch_up (heap self3 strp)))\<rparr>)\<rparr>)"

text \<open>Modelled from the spec: the property system that calls \<open>on_sizable_from\<close> is not
  in src. The spec: \<open>sizable_from\<close> is mutable at runtime, and a change of it triggers the
  handler. Assigning the value it already has is no change.\<close>

definition set_sizable_from :: "world \<Rightarrow> edge \<Rightarrow> world" where
  "set_sizable_from self e =
     (if sizable_from self = e then self
      else on_sizable_from (self\<lparr>sizable_from := e\<rparr>))"

subsection \<open>add_widget, remove_widget, clear_widgets\<close>

text \<open>
  \<open>add_widget(self, widget, index=0)\<close>. With a managed panel already present, or with
  no widget, it returns an Exception object and does nothing else. Otherwise it records
  the panel, sets the panel's size hint on the resize axis to 1, overwrites \<open>index\<close> with
  0 (left, top) or 1 (right, bottom), inserts the panel there and runs
  \<open>on_sizable_from\<close>.
\<close>

definition add_widget :: "world \<Rightarrow> wid option \<Rightarrow> int \<Rightarrow> pyval \<times> world" where
  "add_widget self widget index =
    (if is_obj (container self) \<or> \<not> is_obj widget
     then (PyException ''Splitter accepts only one Widget'', self)
     else
       case widget of
         None \<Rightarrow> (PyException ''Splitter accepts only one Widget'', self)
       | Some w \<Rightarrow>
           let self1 = self\<lparr>container := widget\<rparr>;
               sz_frm = sizable_from self1;
               self2 =
                 (if sz_frm = Left \<or> sz_frm = Right
                  then self1\<lparr>heap := (heap self1)(w := (heap self1 w)\<lparr>size_hint_x := Some 1\<rparr>)\<rparr>
                  else self1\<lparr>heap := (heap self1)(w := (heap self1 w)\<lparr>size_hint_y := Some 1\<rparr>)\<rparr>);
               i = (if sz_frm = Right \<or> sz_frm = Bottom then 1 else 0)
           in (PyNone, on_sizable_from (sup_add_widget self2 w i)))"

definition remove_widget :: "world \<Rightarrow> wid option \<Rightarrow> world" where
  "remove_widget self widget =
     (let self1 = sup_remove_widget self widget
      in if widget = container self1 then self1\<lparr>container := None\<rparr> else self1)"

definition clear_widgets :: "world \<Rightarrow> world" where
  "clear_widgets self = remove_widget self (container self)"

section \<open>The demo application's Splitters\<close>

text \<open>
  The Splitters that \<open>SplitterApp.build\<close> constructs, before their \<open>add_widget\<close>
  calls: \<open>_container\<close> and \<open>_strip\<close> are \<open>None\<close> as \<open>__init__\<close> leaves them, the keyword
  arguments are set, and the class defaults stand for the rest (lengths in pixels, one
  per point). Object 0 is the Splitter, object 1 the widget that is about to be added,
  object 9 the layout the Splitter sits in, taken as its parent from the start; a fresh
  widget is 100 by 100 at the origin with size hint (1, 1).
\<close>

definition fresh_widget :: widget where
  "fresh_widget =
     \<lparr>size_hint_x = Some 1, size_hint_y = Some 1, width = 100, height = 100,
      xpos = 0, ypos = 0, parent = None,
      on_touch_down = [], on_touch_move = [], on_touch_up = []\<rparr>"

definition parent_layout :: widget where
  "parent_layout = fresh_widget\<lparr>width := 1000, height := 800\<rparr>"

definition demo_spl1 :: world where
  "demo_spl1 =
     \<lparr>size_hint_x = None, size_hint_y = Some 1, width = 90, height = 100,
      xpos = 0, ypos = 0, parent = Some 9,
      on_touch_down = [], on_touch_move = [], on_touch_up = [],
      ident = 0, sizable_from = Left, strip_cls = fresh_widget, strip_size = 10,
      min_size = 100, max_size = 500, container = None, strip = None, children = [],
      orientation = Horizontal, strip_size_observers = [],
      heap = (\<lambda>_. fresh_widget)(9 := parent_layout), next_id = 10\<rparr>"

definition demo_spl2 :: world where
  "demo_spl2 = demo_spl1\<lparr>size_hint_x := Some (1 / 4), width := 250\<rparr>"

definition demo_spl :: world where
  "demo_spl =
     demo_spl1\<lparr>size_hint_x := Some 1, size_hint_y := Some (1 / 4), width := 1000,
       height := 200, sizable_from := Bottom\<rparr>"

text \<open>\<open>spl1.add_widget(Button())\<close>, \<open>spl.add_widget(bx)\<close>, and
  \<open>spl2.add_widget(bx2); spl2.sizable_from = 'right'\<close>.\<close>

definition demo_s1 :: world where
  "demo_s1 = snd (add_widget demo_spl1 (Some 1) 0)"

definition demo_s :: world where
  "demo_s = snd (add_widget demo_spl (Some 1) 0)"

definition demo_s2 :: world where
  "demo_s2 = set_sizable_from (snd (add_widget demo_spl2 (Some 1) 0)) Right"

text \<open>The module docstring's usage (\<open>sizable_from = 'right'\<close>, \<open>min_size = 100\<close>,
  \<open>max_size = 250\<close>) on \<open>spl2\<close>, laid out at width 150 by a stretch hint of 0.15 in
  the parent of width 1000.\<close>

definition usage_s2 :: world where
  "usage_s2 =
     demo_s2\<lparr>size_hint_x := Some (3 / 20), width := 150, min_size := 100, max_size := 250\<rparr>"

text \<open>A touch at a position, with its movement since the last event and its capture
  owner.\<close>

definition touch_at :: "real \<times> real \<Rightarrow> real \<Rightarrow> real \<Rightarrow> wid option \<Rightarrow> touch" where
  "touch_at p x y g = \<lparr>pos = p, dx = x, dy = y, grab_current = g\<rparr>"

section \<open>The demo states, field by field\<close>

lemmas demo_defs =
  demo_spl1_def demo_spl2_def demo_spl_def fresh_widget_def parent_layout_def
  demo_s1_def demo_s_def demo_s2_def

lemmas op_defs =
  add_widget_def on_sizable_from_def sup_add_widget_def sup_remove_widget_def
  remove_widget_def is_obj_def bind_def unbind_def set_sizable_from_def

lemma demo_s1_fields:
  "strip demo_s1 = Some 10" "container demo_s1 = Some 1" "children demo_s1 = [1, 10]"
  "sizable_from demo_s1 = Left" "size_hint_x demo_s1 = None" "size_hint_y demo_s1 = Some 1"
  "width demo_s1 = 90" "height demo_s1 = 100" "xpos demo_s1 = 0" "ypos demo_s1 = 0"
  "min_size demo_s1 = 100" "max_size demo_s1 = 500" "parent demo_s1 = Some 9"
  "ident demo_s1 = 0" "next_id demo_s1 = 11"
  "on_touch_down (heap demo_s1 10) = [Strip_down]"
  "on_touch_move (heap demo_s1 10) = [Strip_move]"
  "on_touch_up (heap demo_s1 10) = [Strip_up]"
  by (simp_all add: demo_defs op_defs Let_def)

lemma demo_s2_fields:
  "strip demo_s2 = Some 10" "container demo_s2 = Some 1" "children demo_s2 = [10, 1]"
  "sizable_from demo_s2 = Right" "size_hint_x demo_s2 = Some (1 / 4)"
  "width demo_s2 = 250" "min_size demo_s2 = 100" "max_size demo_s2 = 500"
  "parent demo_s2 = Some 9" "width (heap demo_s2 9) = 1000"
  by (simp_all add: demo_defs op_defs Let_def)

lemma demo_s_fields:
  "strip demo_s = Some 10" "container demo_s = Some 1" "children demo_s = [10, 1]"
  "sizable_from demo_s = Bottom" "size_hint_y demo_s = Some (1 / 4)"
  "height demo_s = 200" "min_size demo_s = 100" "max_size demo_s = 500"
  "parent demo_s = Some 9" "height (heap demo_s 9) = 800"
  by (simp_all add: demo_defs op_defs Let_def)

lemma demo_top_fields:
  "strip (set_sizable_from demo_s1 Top) = Some 10"
  "container (set_sizable_from demo_s1 Top) = Some 1"
  "children (set_sizable_from demo_s1 Top) = [1, 10]"
  "sizable_from (set_sizable_from demo_s1 Top) = Top"
  "min_size (set_sizable_from demo_s1 Top) = 100"
  "max_size (set_sizable_from demo_s1 Top) = 500"
  "next_id (set_sizable_from demo_s1 Top) = 11"
  by (simp_all add: demo_defs op_defs Let_def)

lemmas demo_fields =
  demo_s1_fields demo_s2_fields demo_s_fields demo_top_fields touch_at_def truth_def

section \<open>Properties\<close>

subsection \<open>The clamp\<close>



text \<open>The same over a gesture: after any run of handled moves, at least one, that all
  return, the size on the resize axis lies in \<open>[min_size, max_size]\<close>.\<close>

lemma strip_move_frame:
  assumes "strip_move self inst touch = Inr (r, self')"
  shows "strip self' = strip self \<and> min_size self' = min_size self \<and>
         max_size self' = max_size self \<and> sizable_from self' = sizable_from self"
  using assms
  by (auto simp: strip_move_def Let_def split: if_splits option.splits sum.splits)

lemma strip_move_step_range:
  assumes "grab_current touch = strip self" and "min_size self \<le> max_size self"
    and "strip_move self inst touch = Inr (r, self')"
  shows "if sizable_from self = Top \<or> sizable_from self = Bottom
         then min_size self \<le> height self' \<and> height self' \<le> max_size self
         else min_size self \<le> width self' \<and> width self' \<le> max_size self"
  using assms
  by (auto simp: strip_move_def Let_def split: if_splits option.splits sum.splits)

lemma strip_moves_clamped:
  assumes "\<forall>t \<in> set ts. grab_current t = strip self" and "ts \<noteq> []"
    and "min_size self \<le> max_size self"
    and "strip_moves self inst ts = Inr self'"
  shows "if sizable_from self = Top \<or> sizable_from self = Bottom
         then min_size self \<le> height self' \<and> height self' \<le> max_size self
         else min_size self \<le> width self' \<and> width self' \<le> max_size self"
  using assms
proof (induction ts arbitrary: self)
  case Nil
  then show ?case by simp
next
  case (Cons t ts)
  from Cons.prems(4) obtain r self1
    where step: "strip_move self inst t = Inr (r, self1)"
      and run: "strip_moves self1 inst ts = Inr self'"
    by (auto split: sum.splits)
  have handled: "grab_current t = strip self"
    using Cons.prems(1) by simp
  note frame = strip_move_frame [OF step]
  show ?case
  proof (cases ts)
    case Nil
    with run have "self' = self1" by simp
    with strip_move_step_range [OF handled Cons.prems(3) step] show ?thesis by simp
  next
    case (Cons u us)
    have "\<forall>t \<in> set ts. grab_current t = strip self1"
      using Cons.prems(1) frame by simp
    moreover have "ts \<noteq> []" using Cons by simp
    moreover have "min_size self1 \<le> max_size self1"
      using Cons.prems(3) frame by simp
    ultimately show ?thesis
      using Cons.IH [OF _ _ _ run] by (auto simp: frame split: if_splits)
  qed
qed

subsection \<open>Direction of the drag\<close>

text \<open>
  C4. A handled move in fixed-size mode (the size hint on the axis is \<open>None\<close> or 0), the
  size positive, the delta positive and the new size within \<open>[min_size, max_size]\<close> (the
  clamp does not bind): from the right edge the width grows by \<open>dx\<close>, from the left edge
  it shrinks by \<open>dx\<close>; from the top edge the height grows by \<open>dy\<close>, from the bottom edge it
  shrinks by \<open>dy\<close>. Nothing else changes.
\<close>

theorem strip_move_fixed_direction:
  assumes "grab_current touch = strip self"
  shows
    "(sizable_from self = Right \<and> \<not> truth (size_hint_x self) \<and> 0 < width self \<and>
      0 < dx touch \<and> min_size self \<le> width self + dx touch \<and>
      width self + dx touch \<le> max_size self \<longrightarrow>
        strip_move self inst touch = Inr (PyNone, self\<lparr>width := width self + dx touch\<rparr>) \<and>
        width self < width self + dx touch) \<and>
     (sizable_from self = Left \<and> \<not> truth (size_hint_x self) \<and> 0 < width self \<and>
      0 < dx touch \<and> min_size self \<le> width self - dx touch \<and>
      width self - dx touch \<le> max_size self \<longrightarrow>
        strip_move self inst touch = Inr (PyNone, self\<lparr>width := width self - dx touch\<rparr>) \<and>
        width self - dx touch < width self) \<and>
     (sizable_from self = Top \<and> \<not> truth (size_hint_y self) \<and> 0 < height self \<and>
      0 < dy touch \<and> min_size self \<le> height self + dy touch \<and>
      height self + dy touch \<le> max_size self \<longrightarrow>
        strip_move self inst touch = Inr (PyNone, self\<lparr>height := height self + dy touch\<rparr>) \<and>
        height self < height self + dy touch) \<and>
     (sizable_from self = Bottom \<and> \<not> truth (size_hint_y self) \<and> 0 < height self \<and>
      0 < dy touch \<and> min_size self \<le> height self - dy touch \<and>
      height self - dy touch \<le> max_size self \<longrightarrow>
        strip_move self inst touch = Inr (PyNone, self\<lparr>height := height self - dy touch\<rparr>) \<and>
        height self - dy touch < height self)"
  using assms by (simp add: strip_move_def Let_def)

text \<open>One Splitter per edge, each with a fixed size of 200 on its axis and dragged by 30:
  right gives 230, left 170, top 230, bottom 170.\<close>

theorem strip_move_fixed_direction_witness:
  "strip_move (demo_s2\<lparr>size_hint_x := None, width := 200\<rparr>) 10
       (touch_at (0, 0) 30 0 (Some 10)) =
     Inr (PyNone, demo_s2\<lparr>size_hint_x := None, width := 230\<rparr>) \<and>
   strip_move (demo_s1\<lparr>width := 200\<rparr>) 10 (touch_at (0, 0) 30 0 (Some 10)) =
     Inr (PyNone, demo_s1\<lparr>width := 170\<rparr>) \<and>
   strip_move ((set_sizable_from demo_s1 Top)\<lparr>size_hint_y := None, height := 200\<rparr>) 10
       (touch_at (0, 0) 0 30 (Some 10)) =
     Inr (PyNone, (set_sizable_from demo_s1 Top)\<lparr>size_hint_y := None, height := 230\<rparr>) \<and>
   strip_move (demo_s\<lparr>size_hint_y := None\<rparr>) 10 (touch_at (0, 0) 0 30 (Some 10)) =
     Inr (PyNone, demo_s\<lparr>size_hint_y := None, height := 170\<rparr>)"
proof -
  let ?tx = "touch_at (0, 0) 30 0 (Some 10)"
  let ?ty = "touch_at (0, 0) 0 30 (Some 10)"
  have r: "strip_move (demo_s2\<lparr>size_hint_x := None, width := 200\<rparr>) 10 ?tx =
             Inr (PyNone, demo_s2\<lparr>size_hint_x := None, width := 230\<rparr>)"
    using strip_move_fixed_direction
      [where self = "demo_s2\<lparr>size_hint_x := None, width := 200\<rparr>" and touch = ?tx
         and inst = 10]
    by (simp add: demo_fields)
  have l: "strip_move (demo_s1\<lparr>width := 200\<rparr>) 10 ?tx = Inr (PyNone, demo_s1\<lparr>width := 170\<rparr>)"
    using strip_move_fixed_direction
      [where self = "demo_s1\<lparr>width := 200\<rparr>" and touch = ?tx and inst = 10]
    by (simp add: demo_fields)
  have t: "strip_move ((set_sizable_from demo_s1 Top)\<lparr>size_hint_y := None, height := 200\<rparr>)
             10 ?ty =
           Inr (PyNone, (set_sizable_from demo_s1 Top)\<lparr>size_hint_y := None, height := 230\<rparr>)"
    using strip_move_fixed_direction
      [where self = "(set_sizable_from demo_s1 Top)\<lparr>size_hint_y := None, height := 200\<rparr>"
         and touch = ?ty and inst = 10]
    by (simp add: demo_fields)
  have b: "strip_move (demo_s\<lparr>size_hint_y := None\<rparr>) 10 ?ty =
             Inr (PyNone, demo_s\<lparr>size_hint_y := None, height := 170\<rparr>)"
    using strip_move_fixed_direction
      [where self = "demo_s\<lparr>size_hint_y := None\<rparr>" and touch = ?ty and inst = 10]
    by (simp add: demo_fields)
  from r l t b show ?thesis by blast
qed

subsection \<open>Stretch mode\<close>

lemma usage_s2_fields:
  "strip usage_s2 = Some 10" "sizable_from usage_s2 = Right"
  "size_hint_x usage_s2 = Some (3 / 20)" "width usage_s2 = 150"
  "min_size usage_s2 = 100" "max_size usage_s2 = 250"
  "parent usage_s2 = Some 9" "width (heap usage_s2 9) = 1000"
  by (simp_all add: usage_s2_def demo_s2_fields)

text \<open>What a handled move does in stretch mode, the Splitter having a parent of nonzero
  extent: \<open>sign * (delta / parent extent)\<close> is added to the size hint, the delta does not
  enter the size, and the clamp is applied to the size as it stood.\<close>

lemma strip_move_stretch_effect:
  assumes "grab_current touch = strip self" and "parent self = Some p"
  shows
    "((sizable_from self = Left \<or> sizable_from self = Right) \<and>
      size_hint_x self = Some f \<and> f \<noteq> 0 \<and> width (heap self p) \<noteq> 0 \<longrightarrow>
        strip_move self inst touch =
          Inr (PyNone,
               self\<lparr>size_hint_x :=
                      Some (f + (if sizable_from self = Left then - 1 else 1) *
                                (dx touch / width (heap self p))),
                    width :=
                      (if width self > max_size self then max_size self
                       else if width self < min_size self then min_size self
                       else width self)\<rparr>)) \<and>
     ((sizable_from self = Top \<or> sizable_from self = Bottom) \<and>
      size_hint_y self = Some f \<and> f \<noteq> 0 \<and> height (heap self p) \<noteq> 0 \<longrightarrow>
        strip_move self inst touch =
          Inr (PyNone,
               self\<lparr>size_hint_y :=
                      Some (f + (if sizable_from self = Bottom then - 1 else 1) *
                                (dy touch / height (heap self p))),
                    height :=
                      (if height self > max_size self then max_size self
                       else if height self < min_size self then min_size self
                       else height self)\<rparr>))"
  using assms by (auto simp: strip_move_def Let_def truth_def)

text \<open>In stretch mode the whole delta goes into the realised size, whatever \<open>min_size\<close>
  and \<open>max_size\<close> are: from the right edge the realised width after the handler is the
  one before plus \<open>dx\<close>.\<close>

lemma strip_move_stretch_realized:
  assumes "grab_current touch = strip self" and "parent self = Some p"
    and "sizable_from self = Right" and "size_hint_x self = Some f" and "f \<noteq> 0"
    and "width (heap self p) \<noteq> 0" and "f + dx touch / width (heap self p) \<noteq> 0"
    and "strip_move self inst touch = Inr (r, self')"
  shows "realized_width self' = realized_width self + dx touch"
proof -
  from strip_move_stretch_effect [OF assms(1,2), of f inst] assms(3-6)
  have "strip_move self inst touch =
          Inr (PyNone,
               self\<lparr>size_hint_x := Some (f + dx touch / width (heap self p)),
                    width :=
                      (if width self > max_size self then max_size self
                       else if width self < min_size self then min_size self
                       else width self)\<rparr>)"
    by simp
  with assms(8) have
    "self' = self\<lparr>size_hint_x := Some (f + dx touch / width (heap self p)),
                  width :=
                    (if width self > max_size self then max_size self
                     else if width self < min_size self then min_size self
                     else width self)\<rparr>"
    by simp
  with assms(2,4,5,6,7) show ?thesis
    by (simp add: realized_width_def field_simps)
qed

text \<open>
  C5. The claim's scenario: \<open>min_size = 100\<close>, \<open>max_size = 250\<close>, right edge, a stretch hint
  of 0.15 realising width 150 in a parent of width 1000, a handled move with \<open>dx = 200\<close>.
  The handler adds 0.2 to the hint, which now realises 350, above \<open>max_size\<close>; the clamp
  reads \<open>self.width\<close>, still 150, and changes nothing: the width is not set to 250 and
  the hint is left at 0.35. The same from the bottom edge of the demo's \<open>spl\<close> (hint
  0.25 realising 200 of 800, \<open>max_size = 500\<close>) dragged down by 400: the hint becomes
  0.75, realising 600, and the height stays 200.
\<close>

theorem strip_move_stretch_not_clamped:
  "realized_width usage_s2 = 150 \<and> width usage_s2 = 150 \<and> max_size usage_s2 = 250 \<and>
   strip_move usage_s2 10 (touch_at (0, 0) 200 0 (Some 10)) =
     Inr (PyNone, usage_s2\<lparr>size_hint_x := Some (3 / 20 + 2 / 10)\<rparr>) \<and>
   realized_width (usage_s2\<lparr>size_hint_x := Some (3 / 20 + 2 / 10)\<rparr>) = 350 \<and>
   width (usage_s2\<lparr>size_hint_x := Some (3 / 20 + 2 / 10)\<rparr>) = 150 \<and>
   realized_height demo_s = 200 \<and> height demo_s = 200 \<and> max_size demo_s = 500 \<and>
   strip_move demo_s 10 (touch_at (0, 0) 0 (- 400) (Some 10)) =
     Inr (PyNone, demo_s\<lparr>size_hint_y := Some (1 / 4 + 1 / 2)\<rparr>) \<and>
   realized_height (demo_s\<lparr>size_hint_y := Some (1 / 4 + 1 / 2)\<rparr>) = 600 \<and>
   height (demo_s\<lparr>size_hint_y := Some (1 / 4 + 1 / 2)\<rparr>) = 200"
  by (simp add: strip_move_def Let_def realized_width_def realized_height_def
      usage_s2_fields demo_fields)

text \<open>
  C10. A move that passes the capture check while the size hint on the resize axis is a
  stretch hint: the handler divides by the parent's extent without a guard. It returns
  exactly when the Splitter has a parent whose extent on the axis is not zero; with a
  parent of extent zero it raises ZeroDivisionError, and with no parent the attribute
  access raises before the division.
\<close>

theorem strip_move_stretch_division:
  assumes "grab_current touch = strip self"
  shows
    "((sizable_from self = Left \<or> sizable_from self = Right) \<and> truth (size_hint_x self) \<longrightarrow>
        ((\<exists>r self'. strip_move self inst touch = Inr (r, self')) \<longleftrightarrow>
           (\<exists>p. parent self = Some p \<and> width (heap self p) \<noteq> 0)) \<and>
        ((\<exists>p. parent self = Some p \<and> width (heap self p) = 0) \<longrightarrow>
           strip_move self inst touch = Inl ZeroDivisionError) \<and>
        (parent self = None \<longrightarrow> strip_move self inst touch = Inl AttributeError)) \<and>
     ((sizable_from self = Top \<or> sizable_from self = Bottom) \<and> truth (size_hint_y self) \<longrightarrow>
        ((\<exists>r self'. strip_move self inst touch = Inr (r, self')) \<longleftrightarrow>
           (\<exists>p. parent self = Some p \<and> height (heap self p) \<noteq> 0)) \<and>
        ((\<exists>p. parent self = Some p \<and> height (heap self p) = 0) \<longrightarrow>
           strip_move self inst touch = Inl ZeroDivisionError) \<and>
        (parent self = None \<longrightarrow> strip_move self inst touch = Inl AttributeError))"
  using assms by (auto simp: strip_move_def Let_def split: option.splits)

text \<open>The demo's \<open>spl2\<close> (right edge, stretch hint 0.25) in its parent of width 1000
  returns; in a parent of width 0 the division raises; the demo's \<open>spl\<close> (bottom edge,
  stretch hint 0.25) without a parent raises on the attribute.\<close>

theorem strip_move_stretch_division_witness:
  "(\<exists>r self'. strip_move demo_s2 10 (touch_at (0, 0) 200 0 (Some 10)) = Inr (r, self')) \<and>
   strip_move (demo_s2\<lparr>heap := (heap demo_s2)(9 := parent_layout\<lparr>width := 0\<rparr>)\<rparr>) 10
       (touch_at (0, 0) 200 0 (Some 10)) = Inl ZeroDivisionError \<and>
   strip_move (demo_s\<lparr>parent := None\<rparr>) 10 (touch_at (0, 0) 0 200 (Some 10)) =
     Inl AttributeError"
proof -
  let ?tx = "touch_at (0, 0) 200 0 (Some 10)"
  let ?ty = "touch_at (0, 0) 0 200 (Some 10)"
  let ?z = "demo_s2\<lparr>heap := (heap demo_s2)(9 := parent_layout\<lparr>width := 0\<rparr>)\<rparr>"
  have a: "\<exists>r self'. strip_move demo_s2 10 ?tx = Inr (r, self')"
    using strip_move_stretch_division [where self = demo_s2 and touch = ?tx and inst = 10]
    by (simp add: demo_fields)
  have b: "strip_move ?z 10 ?tx = Inl ZeroDivisionError"
    using strip_move_stretch_division [where self = ?z and touch = ?tx and inst = 10]
    by (simp add: demo_fields)
  have c: "strip_move (demo_s\<lparr>parent := None\<rparr>) 10 ?ty = Inl AttributeError"
    using strip_move_stretch_division
      [where self = "demo_s\<lparr>parent := None\<rparr>" and touch = ?ty and inst = 10]
    by (simp add: demo_fields)
  from a b c show ?thesis by blast
qed

subsection \<open>A size that is not positive\<close>

text \<open>
  C6, as the claim states it, fails when \<open>max_size = 0\<close>: left edge, fixed mode, width 0,
  \<open>min_size = max_size = 0\<close>, \<open>dx = 5\<close>. The handler sets the width to 1 and the clamp
  that follows sets it to \<open>max_size\<close>: the width is 0 after the handler, as before.
\<close>

theorem strip_move_snap_counterexample:
  "grab_current (touch_at (0, 0) 5 0 (Some 10)) =
     strip (demo_s1\<lparr>min_size := 0, max_size := 0, width := 0\<rparr>) \<and>
   sizable_from (demo_s1\<lparr>min_size := 0, max_size := 0, width := 0\<rparr>) = Left \<and>
   \<not> truth (size_hint_x (demo_s1\<lparr>min_size := 0, max_size := 0, width := 0\<rparr>)) \<and>
   strip_move (demo_s1\<lparr>min_size := 0, max_size := 0, width := 0\<rparr>) 10
       (touch_at (0, 0) 5 0 (Some 10)) =
     Inr (PyNone, demo_s1\<lparr>min_size := 0, max_size := 0, width := 0\<rparr>)"
  by (simp add: strip_move_def Let_def demo_fields)

text \<open>
  C6, amended. A handled move in fixed-size mode whose size on the resize axis is not
  positive: the handler drops the event's delta, sets the size to 1, and the clamp that
  ends every handled move then applies to that 1. The size after the handler is
  \<open>max_size\<close> if \<open>max_size < 1\<close>, else \<open>min_size\<close> if \<open>min_size > 1\<close>, else 1. It is not 0
  unless \<open>max_size = 0\<close>, and it is positive when \<open>max_size\<close> is.
\<close>

theorem strip_move_snap:
  assumes "grab_current touch = strip self"
  shows
    "((sizable_from self = Left \<or> sizable_from self = Right) \<and>
      \<not> truth (size_hint_x self) \<and> width self \<le> 0 \<longrightarrow>
        strip_move self inst touch =
          Inr (PyNone,
               self\<lparr>width :=
                      (if 1 > max_size self then max_size self
                       else if 1 < min_size self then min_size self else 1)\<rparr>)) \<and>
     ((sizable_from self = Top \<or> sizable_from self = Bottom) \<and>
      \<not> truth (size_hint_y self) \<and> height self \<le> 0 \<longrightarrow>
        strip_move self inst touch =
          Inr (PyNone,
               self\<lparr>height :=
                      (if 1 > max_size self then max_size self
                       else if 1 < min_size self then min_size self else 1)\<rparr>)) \<and>
     (max_size self \<noteq> 0 \<longrightarrow>
        (if 1 > max_size self then max_size self
         else if 1 < min_size self then min_size self else 1) \<noteq> 0) \<and>
     (0 < max_size self \<longrightarrow>
        0 < (if 1 > max_size self then max_size self
             else if 1 < min_size self then min_size self else 1))"
  using assms by (auto simp: strip_move_def Let_def)

text \<open>The scenario: left edge, fixed mode, width 0, \<open>dx = 5\<close>. With \<open>min_size = 0\<close> the
  width ends at 1; with the demo's \<open>min_size = 100\<close> the clamp lifts the 1 to 100.\<close>

theorem strip_move_snap_witness:
  "strip_move (demo_s1\<lparr>min_size := 0, width := 0\<rparr>) 10 (touch_at (0, 0) 5 0 (Some 10)) =
     Inr (PyNone, demo_s1\<lparr>min_size := 0, width := 1\<rparr>) \<and>
   strip_move (demo_s1\<lparr>width := 0\<rparr>) 10 (touch_at (0, 0) 5 0 (Some 10)) =
     Inr (PyNone, demo_s1\<lparr>width := 100\<rparr>)"
proof -
  let ?t = "touch_at (0, 0) 5 0 (Some 10)"
  have a: "strip_move (demo_s1\<lparr>min_size := 0, width := 0\<rparr>) 10 ?t =
             Inr (PyNone, demo_s1\<lparr>min_size := 0, width := 1\<rparr>)"
    using strip_move_snap
      [where self = "demo_s1\<lparr>min_size := 0, width := 0\<rparr>" and touch = ?t and inst = 10]
    by (simp add: demo_fields)
  have b: "strip_move (demo_s1\<lparr>width := 0\<rparr>) 10 ?t = Inr (PyNone, demo_s1\<lparr>width := 100\<rparr>)"
    using strip_move_snap [where self = "demo_s1\<lparr>width := 0\<rparr>" and touch = ?t and inst = 10]
    by (simp add: demo_fields)
  from a b show ?thesis by blast
qed

subsection \<open>Adding the managed panel\<close>

text \<open>
  C7. \<open>add_widget\<close> with a managed panel already present, or with no widget: the call
  hands back an Exception object (\<open>Splitter accepts only one Widget\<close>) and the Splitter,
  with everything it reaches, is exactly as before: the managed-panel reference, the
  child list and so its first child are unchanged.
\<close>

theorem add_widget_rejects:
  assumes "is_obj (container self) \<or> widget = None"
  shows "add_widget self widget index =
           (PyException ''Splitter accepts only one Widget'', self) \<and>
         container (snd (add_widget self widget index)) = container self \<and>
         children (snd (add_widget self widget index)) = children self"
  using assms by (auto simp: add_widget_def is_obj_def)

text \<open>A second widget for the demo's \<open>spl1\<close>, which already holds its Button, and no
  widget for the empty \<open>spl1\<close>.\<close>

theorem add_widget_rejects_witness:
  "add_widget demo_s1 (Some 2) 0 =
     (PyException ''Splitter accepts only one Widget'', demo_s1) \<and>
   children (snd (add_widget demo_s1 (Some 2) 0)) = [1, 10] \<and>
   add_widget demo_spl1 None 0 =
     (PyException ''Splitter accepts only one Widget'', demo_spl1)"
proof -
  have a: "is_obj (container demo_s1) \<or> Some 2 = (None :: wid option)"
    by (simp add: is_obj_def demo_s1_fields)
  have b: "is_obj (container demo_spl1) \<or> (None :: wid option) = None"
    by simp
  from add_widget_rejects [OF a, of 0] add_widget_rejects [OF b, of 0]
  show ?thesis by (simp add: demo_s1_fields)
qed

text \<open>
  C9. The \<open>index\<close> argument of \<open>add_widget\<close> is overwritten before it is read: any two
  values of it give the same result. On a Splitter without a panel the panel goes to
  index 0 of the child list for the left and top edges and to index 1 for the right and
  bottom edges, the strip taking the other place; this both for a Splitter that has no
  strip yet (a new one, with the next unused identity, is made) and for one whose earlier
  panel was removed and whose strip is its only child.
\<close>

theorem add_widget_index_ignored:
  "add_widget self widget i = add_widget self widget j \<and>
   (container self = None \<and> widget = Some w \<and> strip self = None \<and> children self = [] \<longrightarrow>
      children (snd (add_widget self widget i)) =
        (if sizable_from self = Left \<or> sizable_from self = Top
         then [w, next_id self] else [next_id self, w])) \<and>
   (container self = None \<and> widget = Some w \<and> strip self = Some k \<and> children self = [k] \<and>
    w \<noteq> k \<longrightarrow>
      children (snd (add_widget self widget i)) =
        (if sizable_from self = Left \<or> sizable_from self = Top then [w, k] else [k, w]))"
  by (cases "sizable_from self") (auto simp: op_defs Let_def)

text \<open>The demo's \<open>spl1\<close> (left) and \<open>spl\<close> (bottom) with index 5 in place of the default,
  and \<open>spl1\<close> after its Button was removed again, with a new widget 2.\<close>

theorem add_widget_index_ignored_witness:
  "add_widget demo_spl1 (Some 1) 5 = add_widget demo_spl1 (Some 1) 0 \<and>
   children (snd (add_widget demo_spl1 (Some 1) 5)) = [1, 10] \<and>
   children (snd (add_widget demo_spl (Some 1) 5)) = [10, 1] \<and>
   children (snd (add_widget (remove_widget demo_s1 (Some 1)) (Some 2) 5)) = [2, 10]"
proof -
  have a: "add_widget demo_spl1 (Some 1) 5 = add_widget demo_spl1 (Some 1) 0"
    using add_widget_index_ignored [where self = demo_spl1] by blast
  have b: "children (snd (add_widget demo_spl1 (Some 1) 5)) = [1, 10]"
    using add_widget_index_ignored
      [where self = demo_spl1 and widget = "Some 1" and w = 1 and i = 5]
    by (simp add: demo_spl1_def)
  have c: "children (snd (add_widget demo_spl (Some 1) 5)) = [10, 1]"
    using add_widget_index_ignored
      [where self = demo_spl and widget = "Some 1" and w = 1 and i = 5]
    by (simp add: demo_spl_def demo_spl1_def)
  have d: "children (snd (add_widget (remove_widget demo_s1 (Some 1)) (Some 2) 5)) = [2, 10]"
    using add_widget_index_ignored
      [where self = "remove_widget demo_s1 (Some 1)" and widget = "Some 2" and w = 2
         and k = 10 and i = 5]
    by (simp add: remove_widget_def sup_remove_widget_def demo_s1_fields)
  from a b c d show ?thesis by blast
qed

subsection \<open>Changing the edge\<close>

text \<open>
  C8, as the claim states it, fails: the demo's \<open>spl1\<close> with its Button attached, switched
  from the left to the top edge. The strip after the change is the object it was before
  (object 10), no object has been made, and the Button's size hints are what they were.
\<close>

theorem set_sizable_from_counterexample:
  "container demo_s1 = Some 1 \<and> sizable_from demo_s1 = Left \<and>
   strip demo_s1 = Some 10 \<and>
   strip (set_sizable_from demo_s1 Top) = Some 10 \<and>
   next_id (set_sizable_from demo_s1 Top) = next_id demo_s1 \<and>
   heap (set_sizable_from demo_s1 Top) 1 = heap demo_s1 1"
  by (simp add: demo_defs op_defs Let_def)

text \<open>
  C8, amended. A change of \<open>sizable_from\<close> while a managed panel is attached keeps the
  strip. An existing strip is taken out of the child list, sized for the new edge (for
  left and right: size hint \<open>(None, 1)\<close> and width \<open>strip_size\<close>; for top and bottom: size
  hint \<open>(1, None)\<close> and height \<open>strip_size\<close>; its other size is left as it was), put back
  at index 0 (right, bottom) or 1 (left, top), and its three touch handlers are
  registered afresh; it is the same object and no object is made. Only when there is no
  strip is one made from \<open>strip_cls\<close>, and treated the same way. The orientation becomes
  vertical for top and bottom and is otherwise left alone. The managed panel stays the
  same object, and no object other than the strip is modified: the panel's size hints
  stay as they were.
\<close>

theorem set_sizable_from_keeps_strip:
  assumes "container self = Some c" and "e \<noteq> sizable_from self"
  shows
    "(let s' = set_sizable_from self e;
          i = (if e = Right \<or> e = Bottom then 0 else 1);
          sized = (\<lambda>w.
            (if e = Left \<or> e = Right
             then w\<lparr>size_hint_x := None, size_hint_y := Some 1, width := strip_size self\<rparr>
             else w\<lparr>size_hint_x := Some 1, size_hint_y := None, height := strip_size self\<rparr>)
            \<lparr>on_touch_down := remove1 Strip_down (on_touch_down w) @ [Strip_down],
             on_touch_move := remove1 Strip_move (on_touch_move w) @ [Strip_move],
             on_touch_up := remove1 Strip_up (on_touch_up w) @ [Strip_up]\<rparr>)
      in
        (case strip self of
           Some k \<Rightarrow>
             strip s' = Some k \<and> next_id s' = next_id self \<and>
             children s' =
               take i (remove1 k (children self)) @ k # drop i (remove1 k (children self)) \<and>
             heap s' k = sized (heap self k)
         | None \<Rightarrow>
             strip s' = Some (next_id self) \<and> next_id s' = Suc (next_id self) \<and>
             children s' = take i (children self) @ next_id self # drop i (children self) \<and>
             heap s' (next_id self) = sized (strip_cls self)) \<and>
        container s' = Some c \<and> sizable_from s' = e \<and>
        orientation s' = (if e = Top \<or> e = Bottom then Vertical else orientation self) \<and>
        (\<forall>j. Some j \<noteq> strip s' \<longrightarrow> heap s' j = heap self j))"
proof -
  let ?s = "self\<lparr>sizable_from := e\<rparr>"
  have eq: "set_sizable_from self e = on_sizable_from ?s"
    using assms(2) by (auto simp: set_sizable_from_def)
  show ?thesis
  proof (cases "strip self")
    case None
    with assms(1) show ?thesis
      unfolding eq by (cases e) (simp_all add: op_defs Let_def)
  next
    case (Some k)
    with assms(1) show ?thesis
      unfolding eq by (cases e) (simp_all add: op_defs Let_def)
  qed
qed

text \<open>The demo's \<open>spl2\<close>, whose edge goes from right to top with \<open>bx2\<close> attached: the strip
  is still object 10, now with size hint (1, None) and height \<open>strip_size\<close> = 10, moved
  from index 0 to index 1 of the child list; the panel (object 1) is untouched. And the
  demo's \<open>spl1\<close> with its panel recorded and inserted but no strip yet, going from left to
  right: object 10 is made, sized with width 10, and put at index 0.\<close>

theorem set_sizable_from_keeps_strip_witness:
  "container demo_s2 = Some 1 \<and> Top \<noteq> sizable_from demo_s2 \<and>
   strip demo_s2 = Some 10 \<and> children demo_s2 = [10, 1] \<and>
   strip (set_sizable_from demo_s2 Top) = Some 10 \<and>
   next_id (set_sizable_from demo_s2 Top) = next_id demo_s2 \<and>
   children (set_sizable_from demo_s2 Top) = [1, 10] \<and>
   size_hint_x (heap (set_sizable_from demo_s2 Top) 10) = Some 1 \<and>
   size_hint_y (heap (set_sizable_from demo_s2 Top) 10) = None \<and>
   height (heap (set_sizable_from demo_s2 Top) 10) = 10 \<and>
   container (set_sizable_from demo_s2 Top) = Some 1 \<and>
   orientation (set_sizable_from demo_s2 Top) = Vertical \<and>
   heap (set_sizable_from demo_s2 Top) 1 = heap demo_s2 1 \<and>
   strip (set_sizable_from (demo_spl1\<lparr>container := Some 1, children := [1]\<rparr>) Right) = Some 10 \<and>
   next_id (set_sizable_from (demo_spl1\<lparr>container := Some 1, children := [1]\<rparr>) Right) = 11 \<and>
   children (set_sizable_from (demo_spl1\<lparr>container := Some 1, children := [1]\<rparr>) Right) =
     [10, 1] \<and>
   width (heap (set_sizable_from (demo_spl1\<lparr>container := Some 1, children := [1]\<rparr>) Right) 10) =
     10"
proof -
  have h1: "container demo_s2 = Some 1" by (simp add: demo_s2_fields)
  have h2: "Top \<noteq> sizable_from demo_s2" by (simp add: demo_s2_fields)
  have h3: "strip_size demo_s2 = 10" by (simp add: demo_defs op_defs Let_def)
  from set_sizable_from_keeps_strip [OF h1 h2]
  have a: "strip (set_sizable_from demo_s2 Top) = Some 10 \<and>
        next_id (set_sizable_from demo_s2 Top) = next_id demo_s2 \<and>
        children (set_sizable_from demo_s2 Top) = [1, 10] \<and>
        size_hint_x (heap (set_sizable_from demo_s2 Top) 10) = Some 1 \<and>
        size_hint_y (heap (set_sizable_from demo_s2 Top) 10) = None \<and>
        height (heap (set_sizable_from demo_s2 Top) 10) = 10 \<and>
        container (set_sizable_from demo_s2 Top) = Some 1 \<and>
        orientation (set_sizable_from demo_s2 Top) = Vertical \<and>
        heap (set_sizable_from demo_s2 Top) 1 = heap demo_s2 1"
    by (simp add: demo_s2_fields h3 Let_def)
  let ?n = "demo_spl1\<lparr>container := Some 1, children := [1]\<rparr>"
  have g1: "container ?n = Some 1" by simp
  have g2: "Right \<noteq> sizable_from ?n" by (simp add: demo_spl1_def)
  from set_sizable_from_keeps_strip [OF g1 g2]
  have b: "strip (set_sizable_from ?n Right) = Some 10 \<and>
        next_id (set_sizable_from ?n Right) = 11 \<and>
        children (set_sizable_from ?n Right) = [10, 1] \<and>
        width (heap (set_sizable_from ?n Right) 10) = 10"
    by (simp add: demo_spl1_def Let_def)
  from h1 h2 a b show ?thesis by (simp add: demo_s2_fields)
qed

subsection \<open>Pointer down and pointer up\<close>

text \<open>What the two handlers do on every input: neither touches the Splitter;
  \<open>strip_down\<close> hands back \<open>None\<close> and leaves a touch whose capture owner is not the
  Splitter; \<open>strip_up\<close> leaves the touch alone outside the Splitter's bounds and makes the
  Splitter the capture owner inside them.\<close>

lemma strip_down_effect:
  "strip_down self inst touch =
     (PyNone, self,
      if grab_current touch = Some (ident self) then touch\<lparr>grab_current := None\<rparr>
      else touch)"
  by (simp add: strip_down_def ungrab_def)

lemma strip_down_never_grabs:
  "grab_current (snd (snd (strip_down self inst touch))) \<noteq> Some (ident self)"
  by (simp add: strip_down_effect)

lemma strip_up_effect:
  "strip_up self inst touch =
     (if collide_point self (pos touch)
      then (PyNone, self, touch\<lparr>grab_current := Some (ident self)\<rparr>)
      else (PyFalse, self, touch))"
  by (simp add: strip_up_def grab_def)

text \<open>
  C2. \<open>on_sizable_from\<close> registers \<open>strip_down\<close> for the strip's \<open>on_touch_down\<close>. On the
  demo's \<open>spl1\<close> (at the origin, 90 by 100), a pointer-down at (50, 50), inside the
  bounds, with no capture owner: \<open>strip_down\<close> hands back \<open>None\<close> and the touch is as it
  was, not grabbed. A pointer-down at (500, 500), outside the bounds, whose capture
  owner is the Splitter: \<open>strip_down\<close> releases the capture. The Splitter itself is
  unchanged in both.
\<close>

theorem strip_down_on_pointer_down:
  "on_touch_down (heap demo_s1 10) = [Strip_down] \<and>
   collide_point demo_s1 (pos (touch_at (50, 50) 0 0 None)) \<and>
   strip_down demo_s1 10 (touch_at (50, 50) 0 0 None) =
     (PyNone, demo_s1, touch_at (50, 50) 0 0 None) \<and>
   \<not> collide_point demo_s1 (pos (touch_at (500, 500) 0 0 (Some 0))) \<and>
   strip_down demo_s1 10 (touch_at (500, 500) 0 0 (Some 0)) =
     (PyNone, demo_s1, touch_at (500, 500) 0 0 None)"
  by (simp add: strip_down_def ungrab_def collide_point_def touch_at_def demo_s1_fields)

text \<open>
  C3. \<open>on_sizable_from\<close> registers \<open>strip_up\<close> for the strip's \<open>on_touch_up\<close>. On the
  demo's \<open>spl1\<close>, a pointer-up at (50, 50) whose capture owner is the Splitter (object 0):
  \<open>strip_up\<close> grabs again and the Splitter still owns the capture. A pointer-up at
  (50, 50) whose capture owner is the strip (object 10), not the Splitter: \<open>strip_up\<close>
  makes the Splitter the owner.
\<close>

theorem strip_up_on_pointer_up:
  "on_touch_up (heap demo_s1 10) = [Strip_up] \<and> ident demo_s1 = 0 \<and>
   strip_up demo_s1 10 (touch_at (50, 50) 0 0 (Some 0)) =
     (PyNone, demo_s1, touch_at (50, 50) 0 0 (Some 0)) \<and>
   strip_up demo_s1 10 (touch_at (50, 50) 0 0 (Some 10)) =
     (PyNone, demo_s1, touch_at (50, 50) 0 0 (Some 0))"
  by (simp add: strip_up_def grab_def collide_point_def touch_at_def demo_s1_fields)

end
